theory Spec2Isabelle
  imports Main "HOL-Library.AList"
begin

section \<open>Signalling relay of the video-call backend (backend/main.py)\<close>

text \<open>
  The backend keeps two module-level dictionaries, \<^verbatim>\<open>active_rooms\<close> and
  \<^verbatim>\<open>room_connections\<close>, and drives a Socket.IO server \<^verbatim>\<open>sio\<close>. Every
  handler is modelled as a function from the state before the call to the state after it,
  together with what the handler returns, raises or emits. The handlers are studied on any
  state of the declared types, not only on the states one run of the process goes through;
  the last section, on the status of a room, keeps to registries of the kind line 86 writes.
  The \<^verbatim>\<open>print\<close> calls only write to the log and are left out.
\<close>

subsection \<open>Python values\<close>

datatype py_error =
    AttributeError
  | TypeError
  | HTTPException nat string  \<comment> \<open>\<^verbatim>\<open>status_code\<close>, \<^verbatim>\<open>detail\<close>\<close>

text \<open>
  A \<^verbatim>\<open>datetime\<close> value is either naive (no \<^verbatim>\<open>tzinfo\<close>) or aware. The integer is
  the reading in microseconds: the wall clock for a naive value, the UTC instant for an
  aware one. Ordering two values of the same kind compares the readings; ordering a naive
  with an aware value raises \<^verbatim>\<open>TypeError\<close>.
\<close>

datatype pydatetime = Naive int | Aware int

fun py_gt :: "pydatetime \<Rightarrow> pydatetime \<Rightarrow> py_error + bool" where
  "py_gt (Naive a) (Naive b) = Inr (a > b)"
| "py_gt (Aware a) (Aware b) = Inr (a > b)"
| "py_gt (Naive a) (Aware b) = Inl TypeError"
| "py_gt (Aware a) (Naive b) = Inl TypeError"

definition timedelta_hours :: "int \<Rightarrow> int" where
  "timedelta_hours h = h * 3600 * 1000000"

fun add_timedelta :: "pydatetime \<Rightarrow> int \<Rightarrow> pydatetime" where
  "add_timedelta (Naive a) d = Naive (a + d)"
| "add_timedelta (Aware a) d = Aware (a + d)"

text \<open>
  Line 8 is \<^verbatim>\<open>from datetime import datetime, timedelta\<close>: in this module the name
  \<^verbatim>\<open>datetime\<close> is the class \<^verbatim>\<open>datetime.datetime\<close>, not the module. These are the
  public attributes of that class; looking up any other name on it raises
  \<^verbatim>\<open>AttributeError\<close>. The class \<^verbatim>\<open>timezone\<close> lives in the module, not in the class.
\<close>

definition datetime_class_attrs :: "string list" where
  "datetime_class_attrs =
     [''astimezone'', ''combine'', ''ctime'', ''date'', ''day'', ''dst'', ''fold'',
      ''fromisocalendar'', ''fromisoformat'', ''fromordinal'', ''fromtimestamp'', ''hour'',
      ''isocalendar'', ''isoformat'', ''isoweekday'', ''max'', ''microsecond'', ''min'',
      ''minute'', ''month'', ''now'', ''replace'', ''resolution'', ''second'', ''strftime'',
      ''strptime'', ''time'', ''timestamp'', ''timetuple'', ''timetz'', ''today'',
      ''toordinal'', ''tzinfo'', ''tzname'', ''utcfromtimestamp'', ''utcnow'', ''utcoffset'',
      ''utctimetuple'', ''weekday'', ''year'']"

definition datetime_getattr :: "string \<Rightarrow> py_error + string" where
  "datetime_getattr name =
     (if name \<in> set datetime_class_attrs then Inr name else Inl AttributeError)"

subsection \<open>The two stores and the transport\<close>

text \<open>
  A room is the dictionary \<^verbatim>\<open>room_info\<close> that \<^verbatim>\<open>create_room\<close> builds. The registry
  keeps \<^verbatim>\<open>expiresAt\<close> and \<^verbatim>\<open>createdAt\<close> as the \<^verbatim>\<open>isoformat()\<close> text of a datetime
  and \<^verbatim>\<open>get_room\<close> reads the text back with \<^verbatim>\<open>datetime.fromisoformat\<close>; the text of
  an aware value carries its offset and parses to an aware value again, so the model keeps
  the datetime itself.
\<close>

record room_info =
  roomId :: string
  companionId :: "string option"
  userId :: string
  expiresAt :: pydatetime
  status :: string
  createdAt :: pydatetime

datatype RoomCreate = RoomCreate (create_userId: string) (create_companionId: "string option")

datatype RoomResponse =
  RoomResponse (resp_roomId: string) (resp_companionId: "string option") (resp_userId: string)
    (resp_expiresAt: pydatetime) (resp_status: string)

text \<open>\<^verbatim>\<open>RoomResponse(**room_info)\<close>: the model's fields are filled from the dictionary and
  the extra key \<^verbatim>\<open>createdAt\<close> is ignored.\<close>

definition RoomResponse_of :: "room_info \<Rightarrow> RoomResponse" where
  "RoomResponse_of r =
     RoomResponse (roomId r) (companionId r) (userId r) (expiresAt r) (status r)"

text \<open>
  \<^verbatim>\<open>active_rooms\<close> is only read and written by key, so it is a map.
  \<^verbatim>\<open>room_connections\<close> is iterated by \<^verbatim>\<open>disconnect\<close>, so it is an association list in
  insertion order; its values are Python lists of session ids.

  Modelled from the spec: the Socket.IO server is not part of the repository. Section 6 of
  the specification gives the primitives the handlers rely on: entering and leaving a
  broadcast group, and sending an event to a group with an optional excluded session.
  \<open>sio_rooms\<close> is the server's table of groups; a group is a set of session ids.
\<close>

record state =
  active_rooms :: "string \<rightharpoonup> room_info"
  room_connections :: "(string \<times> string list) list"
  sio_rooms :: "string \<Rightarrow> string set"

definition enter_room :: "state \<Rightarrow> string \<Rightarrow> string \<Rightarrow> state" where
  "enter_room st sid room = st\<lparr>sio_rooms := (sio_rooms st)(room := insert sid (sio_rooms st room))\<rparr>"

definition leave_room :: "state \<Rightarrow> string \<Rightarrow> string \<Rightarrow> state" where
  "leave_room st sid room = st\<lparr>sio_rooms := (sio_rooms st)(room := sio_rooms st room - {sid})\<rparr>"

text \<open>
  One call \<^verbatim>\<open>sio.emit(event, payload, room=..., skip_sid=...)\<close>. The payload is the
  dictionary of the call, in the order it is written; a value is \<open>None\<close> for Python's
  \<^verbatim>\<open>None\<close>.
\<close>

datatype emission =
  Emit (event: string) (payload: "(string \<times> string option) list") (room: string)
    (skip_sid: "string option")

text \<open>The sessions an emission is delivered to, given the server's groups at the time.\<close>

definition recipients :: "(string \<Rightarrow> string set) \<Rightarrow> emission \<Rightarrow> string set" where
  "recipients groups e =
     groups (room e) - (case skip_sid e of None \<Rightarrow> {} | Some s \<Rightarrow> {s})"

subsection \<open>HTTP handlers\<close>

text \<open>
  \<^verbatim>\<open>create_room\<close>, lines 71 to 89. \<open>uuid4\<close> is the text of the identifier drawn at line
  74, \<open>t1\<close> and \<open>t2\<close> are the clock readings at lines 75 and 83. Line 75 evaluates
  \<^verbatim>\<open>datetime.timezone\<close> first; when that raises, nothing after it runs.
\<close>

definition create_room ::
  "state \<Rightarrow> string \<Rightarrow> int \<Rightarrow> int \<Rightarrow> RoomCreate \<Rightarrow> state \<times> (py_error + RoomResponse)" where
  "create_room st uuid4 t1 t2 room_data =
     (let room_id = uuid4 in
      case datetime_getattr ''timezone'' of
        Inl e \<Rightarrow> (st, Inl e)
      | Inr _ \<Rightarrow>
          (let expires_at = add_timedelta (Aware t1) (timedelta_hours 2);
               room_info = \<lparr>roomId = room_id,
                            companionId = create_companionId room_data,
                            userId = create_userId room_data,
                            expiresAt = expires_at,
                            status = ''active'',
                            createdAt = Aware t2\<rparr>
           in (st\<lparr>active_rooms := (active_rooms st)(room_id \<mapsto> room_info),
                   room_connections := AList.update room_id [] (room_connections st)\<rparr>,
               Inr (RoomResponse_of room_info))))"

text \<open>
  \<^verbatim>\<open>get_room\<close>, lines 91 to 105. \<open>utcnow\<close> is the reading of \<^verbatim>\<open>datetime.utcnow()\<close>,
  which is always naive. \<^verbatim>\<open>room_info\<close> is the dictionary stored in the registry itself,
  so the assignment at line 102 changes the stored room.
\<close>

definition get_room :: "state \<Rightarrow> int \<Rightarrow> string \<Rightarrow> state \<times> (py_error + RoomResponse)" where
  "get_room st utcnow room_id =
     (case active_rooms st room_id of
        None \<Rightarrow> (st, Inl (HTTPException 404 ''Room not found''))
      | Some room_info \<Rightarrow>
          (let expires_at = expiresAt room_info in
           case py_gt (Naive utcnow) expires_at of
             Inl e \<Rightarrow> (st, Inl e)
           | Inr True \<Rightarrow>
               (st\<lparr>active_rooms := (active_rooms st)(room_id \<mapsto> room_info\<lparr>status := ''expired''\<rparr>)\<rparr>,
                Inl (HTTPException 410 ''Room has expired''))
           | Inr False \<Rightarrow> (st, Inr (RoomResponse_of room_info))))"

subsection \<open>Socket.IO handlers\<close>

text \<open>
  An event payload \<^verbatim>\<open>data\<close> is a dictionary; \<^verbatim>\<open>data.get(k)\<close> is \<open>data k\<close>, with
  \<open>None\<close> for a missing key. Values are strings: the string fields of the wire contract,
  and the \<^verbatim>\<open>sdp\<close> and \<^verbatim>\<open>candidate\<close> objects, which the handlers only pass on, as
  their text. A handler returns the new state and the emissions it made, in order. Within
  every handler the groups change before anything is emitted, so the groups of the
  returned state are the groups at the time of each emission.
\<close>

type_synonym data = "string \<rightharpoonup> string"

text \<open>\<^verbatim>\<open>not room_id\<close>: true for \<^verbatim>\<open>None\<close> and for the empty string.\<close>

definition py_not :: "string option \<Rightarrow> bool" where
  "py_not v = (case v of None \<Rightarrow> True | Some s \<Rightarrow> s = [])"

text \<open>\<^verbatim>\<open>disconnect\<close>, lines 198 to 208: the loop over \<^verbatim>\<open>room_connections.items()\<close>.
  \<^verbatim>\<open>list.remove\<close> deletes the first occurrence only.\<close>

fun disconnect_loop ::
  "string \<Rightarrow> (string \<times> string list) list \<Rightarrow> (string \<times> string list) list \<times> emission list" where
  "disconnect_loop sid [] = ([], [])"
| "disconnect_loop sid ((room_id, connections) # rest) =
     (let (rest', out) = disconnect_loop sid rest in
      if sid \<in> set connections
      then ((room_id, remove1 sid connections) # rest',
            Emit ''leave'' [(''userId'', Some sid)] room_id (Some sid) # out)
      else ((room_id, connections) # rest', out))"

definition disconnect :: "state \<Rightarrow> string \<Rightarrow> state \<times> emission list" where
  "disconnect st sid =
     (let (rc, out) = disconnect_loop sid (room_connections st)
      in (st\<lparr>room_connections := rc\<rparr>, out))"

text \<open>\<^verbatim>\<open>join\<close>, lines 210 to 236.\<close>

definition join :: "state \<Rightarrow> string \<Rightarrow> data \<Rightarrow> state \<times> emission list" where
  "join st sid data =
     (let room_id = data ''roomId''; user_id = data ''userId''; role = data ''role'' in
      if py_not room_id \<or> the room_id \<notin> dom (active_rooms st)
      then (st, [Emit ''error'' [(''message'', Some ''Room not found'')] sid None])
      else
        (let r = the room_id;
             st1 = enter_room st sid r;
             rc1 = (if r \<notin> fst ` set (room_connections st1)
                    then AList.update r [] (room_connections st1)
                    else room_connections st1);
             rc2 = AList.map_entry r (\<lambda>connections. connections @ [sid]) rc1
         in (st1\<lparr>room_connections := rc2\<rparr>,
             [Emit ''user_joined'' [(''userId'', user_id), (''role'', role)] r (Some sid)])))"

text \<open>\<^verbatim>\<open>offer\<close>, \<^verbatim>\<open>answer\<close> and \<^verbatim>\<open>candidate\<close>, lines 238 to 294.\<close>

definition offer :: "state \<Rightarrow> string \<Rightarrow> data \<Rightarrow> state \<times> emission list" where
  "offer st sid data =
     (let room_id = data ''roomId''; sdp = data ''sdp''; from_user = data ''from'' in
      if py_not room_id then (st, [])
      else (st, [Emit ''offer'' [(''from'', from_user), (''sdp'', sdp)] (the room_id) (Some sid)]))"

definition answer :: "state \<Rightarrow> string \<Rightarrow> data \<Rightarrow> state \<times> emission list" where
  "answer st sid data =
     (let room_id = data ''roomId''; sdp = data ''sdp''; from_user = data ''from'' in
      if py_not room_id then (st, [])
      else (st, [Emit ''answer'' [(''from'', from_user), (''sdp'', sdp)] (the room_id) (Some sid)]))"

definition candidate :: "state \<Rightarrow> string \<Rightarrow> data \<Rightarrow> state \<times> emission list" where
  "candidate st sid data =
     (let room_id = data ''roomId''; cand = data ''candidate''; from_user = data ''from'' in
      if py_not room_id then (st, [])
      else (st, [Emit ''candidate'' [(''from'', from_user), (''candidate'', cand)]
                   (the room_id) (Some sid)]))"

text \<open>\<^verbatim>\<open>leave\<close>, lines 296 to 318.\<close>

definition leave :: "state \<Rightarrow> string \<Rightarrow> data \<Rightarrow> state \<times> emission list" where
  "leave st sid data =
     (let room_id = data ''roomId''; user_id = data ''userId'' in
      if py_not room_id then (st, [])
      else
        (let r = the room_id;
             st1 = leave_room st sid r;
             rc = (case map_of (room_connections st1) r of
                     None \<Rightarrow> room_connections st1
                   | Some connections \<Rightarrow>
                       if sid \<in> set connections
                       then AList.map_entry r (remove1 sid) (room_connections st1)
                       else room_connections st1)
         in (st1\<lparr>room_connections := rc\<rparr>, [Emit ''user_left'' [(''userId'', user_id)] r None])))"

text \<open>\<^verbatim>\<open>end\<close>, lines 320 to 340.\<close>

definition end_call :: "state \<Rightarrow> string \<Rightarrow> data \<Rightarrow> state \<times> emission list" where
  "end_call st sid data =
     (let room_id = data ''roomId''; reason = data ''reason'' in
      if py_not room_id then (st, [])
      else
        (let r = the room_id;
             rooms = (case active_rooms st r of
                        None \<Rightarrow> active_rooms st
                      | Some room_info \<Rightarrow> (active_rooms st)(r \<mapsto> room_info\<lparr>status := ''ended''\<rparr>))
         in (st\<lparr>active_rooms := rooms\<rparr>, [Emit ''call_ended'' [(''reason'', reason)] r None])))"

subsection \<open>Observing the directory, and runs of the server\<close>

text \<open>The sessions listed for a room, \<^verbatim>\<open>room_connections.get(room_id, [])\<close>.\<close>

definition connections_of :: "state \<Rightarrow> string \<Rightarrow> string list" where
  "connections_of st room_id =
     (case map_of (room_connections st) room_id of None \<Rightarrow> [] | Some connections \<Rightarrow> connections)"




subsection \<open>Example states\<close>

text \<open>
  A registry holding one room \<open>r1\<close>, with the given sessions listed for it and the given
  broadcast group; the sessions \<open>sA\<close> and \<open>sB\<close> are connected, each alone in the group
  named by its own id, as the server arranges on connection.
\<close>

definition example_room :: "string \<Rightarrow> pydatetime \<Rightarrow> pydatetime \<Rightarrow> room_info" where
  "example_room s created expires =
     \<lparr>roomId = ''r1'', companionId = None, userId = ''u1'', expiresAt = expires,
      status = s, createdAt = created\<rparr>"

definition example_state :: "room_info \<Rightarrow> string list \<Rightarrow> string set \<Rightarrow> state" where
  "example_state room_info connections members =
     \<lparr>active_rooms = [''r1'' \<mapsto> room_info],
      room_connections = [(''r1'', connections)],
      sio_rooms = (\<lambda>room. if room = ''r1'' then members
                           else if room = ''sA'' \<or> room = ''sB'' then {room} else {})\<rparr>"

text \<open>The room that lines 75 to 84 are written to build at clock reading 0: aware
  timestamps, expiry two hours after creation.\<close>

definition stored_room :: room_info where
  "stored_room = example_room ''active'' (Aware 0) (add_timedelta (Aware 0) (timedelta_hours 2))"

text \<open>Two rooms, session \<open>sA\<close> listed in both.\<close>

definition two_rooms :: state where
  "two_rooms =
     \<lparr>active_rooms = [''r1'' \<mapsto> example_room ''active'' (Naive 0) (Naive 10),
                       ''r2'' \<mapsto> (example_room ''active'' (Naive 0) (Naive 10))\<lparr>roomId := ''r2''\<rparr>],
      room_connections = [(''r1'', [''sA'', ''sB'']), (''r2'', [''sA''])],
      sio_rooms = (\<lambda>room. if room = ''r1'' then {''sA'', ''sB''}
                           else if room = ''r2'' then {''sA''}
                           else if room = ''sA'' \<or> room = ''sB'' then {room} else {})\<rparr>"

subsection \<open>Registries as the creation path writes them\<close>



section \<open>Room creation\<close>

lemma timezone_not_class_attr: "datetime_getattr ''timezone'' = Inl AttributeError"
  by (simp add: datetime_getattr_def datetime_class_attrs_def)

text \<open>
  C1. The claim is that creating a room always succeeds and stores an active room that
  expires two hours after its creation. The handler does neither: whatever the request,
  the identifier drawn and the clock, line 75 raises \<^verbatim>\<open>AttributeError\<close> before anything
  is stored, and both dictionaries are left as they were.
\<close>

theorem create_room_raises:
  "create_room st uuid4 t1 t2 room_data = (st, Inl AttributeError)"
  by (simp add: create_room_def timezone_not_class_attr)

section \<open>Room lookup\<close>

lemma get_room_absent:
  "active_rooms st room_id = None \<Longrightarrow>
   get_room st utcnow room_id = (st, Inl (HTTPException 404 ''Room not found''))"
  by (simp add: get_room_def)

lemma get_room_naive_live:
  "active_rooms st room_id = Some room_info \<Longrightarrow> expiresAt room_info = Naive t \<Longrightarrow>
   \<not> utcnow > t \<Longrightarrow>
   get_room st utcnow room_id = (st, Inr (RoomResponse_of room_info))"
  by (simp add: get_room_def)

lemma get_room_naive_expired:
  "active_rooms st room_id = Some room_info \<Longrightarrow> expiresAt room_info = Naive t \<Longrightarrow>
   utcnow > t \<Longrightarrow>
   get_room st utcnow room_id =
     (st\<lparr>active_rooms := (active_rooms st)(room_id \<mapsto> room_info\<lparr>status := ''expired''\<rparr>)\<rparr>,
      Inl (HTTPException 410 ''Room has expired''))"
  by (simp add: get_room_def)

text \<open>
  C2. The claim is that a lookup fails with 404 for an unknown room and, for a stored room,
  succeeds until the clock passes \<open>expiresAt\<close> and fails with 410 afterwards, marking the
  room expired. The three lemmas above show this for a room whose \<open>expiresAt\<close> is a naive
  timestamp. For a room whose \<open>expiresAt\<close> is an aware timestamp, which is the kind line 75
  is written to store, the comparison at line 101 with the naive \<^verbatim>\<open>datetime.utcnow()\<close>
  raises \<^verbatim>\<open>TypeError\<close>: the lookup neither succeeds nor answers 410, at any time, and
  the room is left as it was.
\<close>

theorem get_room_aware_raises:
  "active_rooms st room_id = Some room_info \<Longrightarrow> expiresAt room_info = Aware t \<Longrightarrow>
   get_room st utcnow room_id = (st, Inl TypeError)"
  by (simp add: get_room_def)

theorem get_room_aware_raises_witness:
  "get_room (example_state stored_room [] {}) 1 ''r1'' =
     (example_state stored_room [] {}, Inl TypeError)"
  using get_room_aware_raises [of "example_state stored_room [] {}" "''r1''" stored_room
      "timedelta_hours 2" 1]
  by (simp add: example_state_def stored_room_def example_room_def)

section \<open>Joining a room\<close>

text \<open>
  C5. A \<^verbatim>\<open>join\<close> whose \<open>roomId\<close> is missing, empty or not a key of the registry makes
  exactly one emission, \<open>error\<close> with the message \<open>Room not found\<close>, addressed to the
  group named by the sender's own session id and excluding nobody, so it is delivered to
  the members of that group (the sender alone, as the server keeps it); nothing is sent to
  a room and the registry, the directory and the groups are unchanged.
\<close>

theorem join_unknown_room:
  assumes "py_not (data ''roomId'') \<or> (\<exists>r. data ''roomId'' = Some r \<and> active_rooms st r = None)"
  shows "join st sid data = (st, [Emit ''error'' [(''message'', Some ''Room not found'')] sid None])
       \<and> recipients (sio_rooms st) (Emit ''error'' [(''message'', Some ''Room not found'')] sid None)
           = sio_rooms st sid"
  using assms by (auto simp: join_def recipients_def domIff)

theorem join_unknown_room_witness:
  "join (example_state stored_room [''sB''] {''sB''}) ''sA'' [''roomId'' \<mapsto> ''r9'', ''userId'' \<mapsto> ''u2'']
     = (example_state stored_room [''sB''] {''sB''},
        [Emit ''error'' [(''message'', Some ''Room not found'')] ''sA'' None])
   \<and> recipients (sio_rooms (example_state stored_room [''sB''] {''sB''}))
        (Emit ''error'' [(''message'', Some ''Room not found'')] ''sA'' None) = {''sA''}
   \<and> join (example_state stored_room [''sB''] {''sB''}) ''sA'' [''userId'' \<mapsto> ''u2'']
     = (example_state stored_room [''sB''] {''sB''},
        [Emit ''error'' [(''message'', Some ''Room not found'')] ''sA'' None])"
proof -
  let ?st = "example_state stored_room [''sB''] {''sB''}"
  have c: "sio_rooms ?st ''sA'' = {''sA''}" and d: "active_rooms ?st ''r9'' = None"
    by (simp_all add: example_state_def)
  show ?thesis
    using join_unknown_room [where data = "[''roomId'' \<mapsto> ''r9'', ''userId'' \<mapsto> ''u2'']"
        and st = ?st and sid = "''sA''"]
      join_unknown_room [where data = "[''userId'' \<mapsto> ''u2'']" and st = ?st and sid = "''sA''"]
      c d
    by (simp add: py_not_def)
qed

lemma map_of_append_entry:
  "map_of (AList.map_entry r f (if r \<notin> fst ` set rc then AList.update r [] rc else rc)) =
     (map_of rc)(r \<mapsto> f (case map_of rc r of None \<Rightarrow> [] | Some cs \<Rightarrow> cs))"
proof (cases "map_of rc r")
  case None
  then have "r \<notin> fst ` set rc"
    by (simp add: map_of_eq_None_iff)
  with None show ?thesis
    by (simp add: map_of_map_entry update_conv')
next
  case (Some cs)
  then have "r \<in> fst ` set rc"
    by (metis map_of_eq_None_iff option.distinct(1))
  with Some show ?thesis
    by (simp add: map_of_map_entry)
qed

lemma join_known_room_directory:
  assumes "data ''roomId'' = Some r" "r \<noteq> []" "active_rooms st r = Some room_info"
  shows "map_of (room_connections (fst (join st sid data))) =
           (map_of (room_connections st))(r \<mapsto> connections_of st r @ [sid])"
proof -
  have "room_connections (fst (join st sid data)) =
          AList.map_entry r (\<lambda>connections. connections @ [sid])
            (if r \<notin> fst ` set (room_connections st)
             then AList.update r [] (room_connections st) else room_connections st)"
    using assms
    by (simp add: join_def py_not_def domIff enter_room_def Let_def del: AList.map_entry.simps)
  then show ?thesis
    by (simp only: map_of_append_entry connections_of_def)
qed

lemma join_known_room:
  assumes "data ''roomId'' = Some r" "r \<noteq> []" "active_rooms st r = Some room_info"
  shows "active_rooms (fst (join st sid data)) = active_rooms st"
    and "sio_rooms (fst (join st sid data)) = (sio_rooms st)(r := insert sid (sio_rooms st r))"
    and "snd (join st sid data) =
           [Emit ''user_joined'' [(''userId'', data ''userId''), (''role'', data ''role'')] r (Some sid)]"
  using assms
  by (simp_all add: join_def py_not_def domIff enter_room_def Let_def)

lemma join_known_room_connections:
  assumes "data ''roomId'' = Some r" "r \<noteq> []" "active_rooms st r = Some room_info"
  shows "connections_of (fst (join st sid data)) r' =
           (if r' = r then connections_of st r @ [sid] else connections_of st r')"
proof -
  have "map_of (room_connections (fst (join st sid data))) =
          (map_of (room_connections st))(r \<mapsto> connections_of st r @ [sid])"
    using assms by (rule join_known_room_directory)
  then show ?thesis
    by (simp add: connections_of_def)
qed


text \<open>
  C10. A \<^verbatim>\<open>join\<close> only asks whether its \<open>roomId\<close> is a key of the registry. For a stored
  room, whatever its status and its \<open>expiresAt\<close> (the handler reads no clock), the join
  succeeds: the session enters the room's broadcast group and is listed in the directory,
  \<open>user_joined\<close> is sent to the room without the sender, and the registry, with the
  room's status and expiry, is exactly what it was.
\<close>

theorem join_known_room_keeps_registry:
  assumes "data ''roomId'' = Some r" "r \<noteq> []" "active_rooms st r = Some room_info"
  shows "active_rooms (fst (join st sid data)) = active_rooms st
       \<and> sid \<in> sio_rooms (fst (join st sid data)) r
       \<and> sid \<in> set (connections_of (fst (join st sid data)) r)
       \<and> snd (join st sid data) =
           [Emit ''user_joined'' [(''userId'', data ''userId''), (''role'', data ''role'')] r (Some sid)]
       \<and> recipients (sio_rooms (fst (join st sid data)))
            (Emit ''user_joined'' [(''userId'', data ''userId''), (''role'', data ''role'')] r (Some sid))
           = sio_rooms st r - {sid}"
  using assms
  by (simp add: join_known_room join_known_room_connections recipients_def)

theorem join_known_room_keeps_registry_witness:
  "active_rooms (fst (join (example_state (example_room ''ended'' (Naive 0) (Naive 10)) [''sB''] {''sB''})
       ''sA'' [''roomId'' \<mapsto> ''r1'', ''userId'' \<mapsto> ''u2'', ''role'' \<mapsto> ''callee'']))
     = [''r1'' \<mapsto> example_room ''ended'' (Naive 0) (Naive 10)]
   \<and> snd (join (example_state (example_room ''ended'' (Naive 0) (Naive 10)) [''sB''] {''sB''})
       ''sA'' [''roomId'' \<mapsto> ''r1'', ''userId'' \<mapsto> ''u2'', ''role'' \<mapsto> ''callee''])
     = [Emit ''user_joined'' [(''userId'', Some ''u2''), (''role'', Some ''callee'')] ''r1'' (Some ''sA'')]
   \<and> recipients (sio_rooms (fst (join (example_state (example_room ''ended'' (Naive 0) (Naive 10)) [''sB''] {''sB''})
       ''sA'' [''roomId'' \<mapsto> ''r1'', ''userId'' \<mapsto> ''u2'', ''role'' \<mapsto> ''callee''])))
        (Emit ''user_joined'' [(''userId'', Some ''u2''), (''role'', Some ''callee'')] ''r1'' (Some ''sA''))
     = {''sB''}"
  using join_known_room_keeps_registry [where data = "[''roomId'' \<mapsto> ''r1'', ''userId'' \<mapsto> ''u2'', ''role'' \<mapsto> ''callee'']"
      and r = "''r1''" and st = "example_state (example_room ''ended'' (Naive 0) (Naive 10)) [''sB''] {''sB''}"
      and room_info = "example_room ''ended'' (Naive 0) (Naive 10)" and sid = "''sA''"]
  by (simp add: example_state_def)

text \<open>
  C3. The claim is that adding a session to a room a second time leaves the directory as
  the first add left it. The directory keeps a Python list and \<^verbatim>\<open>join\<close> appends to it
  without looking: after a repeated join the session is listed twice.
\<close>

theorem join_twice_counterexample:
  "fst (join (fst (join (example_state (example_room ''active'' (Naive 0) (Naive 10)) [] {})
                ''sA'' [''roomId'' \<mapsto> ''r1'']))
          ''sA'' [''roomId'' \<mapsto> ''r1''])
     \<noteq> fst (join (example_state (example_room ''active'' (Naive 0) (Naive 10)) [] {})
                ''sA'' [''roomId'' \<mapsto> ''r1''])
   \<and> room_connections (fst (join (example_state (example_room ''active'' (Naive 0) (Naive 10)) [] {})
                ''sA'' [''roomId'' \<mapsto> ''r1''])) = [(''r1'', [''sA''])]
   \<and> room_connections (fst (join (fst (join (example_state (example_room ''active'' (Naive 0) (Naive 10)) [] {})
                ''sA'' [''roomId'' \<mapsto> ''r1'']))
          ''sA'' [''roomId'' \<mapsto> ''r1''])) = [(''r1'', [''sA'', ''sA''])]"
proof -
  let ?st = "example_state (example_room ''active'' (Naive 0) (Naive 10)) [] {}"
  let ?d = "[''roomId'' \<mapsto> ''r1'']"
  have one: "room_connections (fst (join ?st ''sA'' ?d)) = [(''r1'', [''sA''])]"
    by (simp add: join_def py_not_def example_state_def enter_room_def Let_def)
  have two: "room_connections (fst (join (fst (join ?st ''sA'' ?d)) ''sA'' ?d)) = [(''r1'', [''sA'', ''sA''])]"
    by (simp add: join_def py_not_def example_state_def enter_room_def Let_def)
  from one two have "fst (join (fst (join ?st ''sA'' ?d)) ''sA'' ?d) \<noteq> fst (join ?st ''sA'' ?d)"
    by (metis list.inject prod.inject list.distinct(1))
  with one two show ?thesis by simp
qed

text \<open>
  C3, amended. A repeated \<^verbatim>\<open>join\<close> of the same session to the same stored room leaves
  the registry and the broadcast groups as the first join left them and leaves the set of
  sessions listed for every room unchanged, but the room's list gains one more occurrence
  of the session; \<open>user_joined\<close> is sent again.
\<close>

theorem join_twice:
  assumes "data ''roomId'' = Some r" "r \<noteq> []" "active_rooms st r = Some room_info"
  shows "(let st1 = fst (join st sid data); st2 = fst (join st1 sid data) in
            active_rooms st2 = active_rooms st1
          \<and> sio_rooms st2 = sio_rooms st1
          \<and> connections_of st2 r = connections_of st1 r @ [sid]
          \<and> (\<forall>r'. set (connections_of st2 r') = set (connections_of st1 r'))
          \<and> snd (join st1 sid data) =
              [Emit ''user_joined'' [(''userId'', data ''userId''), (''role'', data ''role'')] r (Some sid)])"
proof -
  let ?st1 = "fst (join st sid data)"
  have reg: "active_rooms ?st1 r = Some room_info"
    using assms by (simp add: join_known_room)
  have first: "connections_of ?st1 r' = (if r' = r then connections_of st r @ [sid] else connections_of st r')" for r'
    using assms by (rule join_known_room_connections)
  have second: "connections_of (fst (join ?st1 sid data)) r' =
      (if r' = r then connections_of ?st1 r @ [sid] else connections_of ?st1 r')" for r'
    using assms(1,2) reg by (rule join_known_room_connections)
  have groups: "sio_rooms (fst (join ?st1 sid data)) = sio_rooms ?st1"
    using assms reg by (auto simp: join_known_room)
  show ?thesis
    unfolding Let_def
    using assms reg groups first second
    by (simp add: join_known_room)
qed

theorem join_twice_witness:
  "(let st1 = fst (join (example_state (example_room ''active'' (Naive 0) (Naive 10)) [] {})
                ''sA'' [''roomId'' \<mapsto> ''r1'']);
        st2 = fst (join st1 ''sA'' [''roomId'' \<mapsto> ''r1'']) in
      connections_of st1 ''r1'' = [''sA''] \<and> connections_of st2 ''r1'' = [''sA'', ''sA'']
    \<and> sio_rooms st2 = sio_rooms st1 \<and> sio_rooms st1 ''r1'' = {''sA''})"
  using join_twice [where data = "[''roomId'' \<mapsto> ''r1'']" and r = "''r1''"
      and st = "example_state (example_room ''active'' (Naive 0) (Naive 10)) [] {}"
      and room_info = "example_room ''active'' (Naive 0) (Naive 10)" and sid = "''sA''"]
    join_known_room_connections [where data = "[''roomId'' \<mapsto> ''r1'']" and r = "''r1''"
      and st = "example_state (example_room ''active'' (Naive 0) (Naive 10)) [] {}"
      and room_info = "example_room ''active'' (Naive 0) (Naive 10)" and sid = "''sA''" and r' = "''r1''"]
    join_known_room(2) [where data = "[''roomId'' \<mapsto> ''r1'']" and r = "''r1''"
      and st = "example_state (example_room ''active'' (Naive 0) (Naive 10)) [] {}"
      and room_info = "example_room ''active'' (Naive 0) (Naive 10)" and sid = "''sA''"]
  by (simp add: Let_def example_state_def connections_of_def)

section \<open>Relaying offers, answers and candidates\<close>

text \<open>
  C6. An \<open>offer\<close>, \<open>answer\<close> or \<open>candidate\<close> event with a non-empty \<open>roomId\<close> makes one
  emission of the same name, carrying the sender-supplied \<open>from\<close> and the \<open>sdp\<close> (or the
  \<open>candidate\<close>), to the room without the sender: it is delivered to the members of the
  room's broadcast group other than the sender. The state is returned as it was. With a
  missing or empty \<open>roomId\<close> nothing is emitted and nothing changes.
\<close>

theorem relay_events:
  "(data ''roomId'' = Some r \<and> r \<noteq> [] \<longrightarrow>
      offer st sid data =
        (st, [Emit ''offer'' [(''from'', data ''from''), (''sdp'', data ''sdp'')] r (Some sid)])
    \<and> answer st sid data =
        (st, [Emit ''answer'' [(''from'', data ''from''), (''sdp'', data ''sdp'')] r (Some sid)])
    \<and> candidate st sid data =
        (st, [Emit ''candidate'' [(''from'', data ''from''), (''candidate'', data ''candidate'')]
                r (Some sid)])
    \<and> (\<forall>ev pl. recipients (sio_rooms st) (Emit ev pl r (Some sid)) = sio_rooms st r - {sid}))
 \<and> (data ''roomId'' = None \<or> data ''roomId'' = Some [] \<longrightarrow>
      offer st sid data = (st, []) \<and> answer st sid data = (st, [])
    \<and> candidate st sid data = (st, []))"
  by (auto simp: offer_def answer_def candidate_def py_not_def recipients_def)

theorem relay_events_witness:
  "candidate (example_state stored_room [''sA'', ''sB''] {''sA'', ''sB''}) ''sA''
       [''roomId'' \<mapsto> ''r1'', ''from'' \<mapsto> ''alice'', ''candidate'' \<mapsto> ''c0'']
     = (example_state stored_room [''sA'', ''sB''] {''sA'', ''sB''},
        [Emit ''candidate'' [(''from'', Some ''alice''), (''candidate'', Some ''c0'')] ''r1'' (Some ''sA'')])
   \<and> recipients (sio_rooms (example_state stored_room [''sA'', ''sB''] {''sA'', ''sB''}))
        (Emit ''candidate'' [(''from'', Some ''alice''), (''candidate'', Some ''c0'')] ''r1'' (Some ''sA''))
     = {''sB''}
   \<and> offer (example_state stored_room [''sA'', ''sB''] {''sA'', ''sB''}) ''sA''
       [''roomId'' \<mapsto> [], ''from'' \<mapsto> ''alice'', ''sdp'' \<mapsto> ''v=0'']
     = (example_state stored_room [''sA'', ''sB''] {''sA'', ''sB''}, [])
   \<and> answer (example_state stored_room [''sA'', ''sB''] {''sA'', ''sB''}) ''sA''
       [''from'' \<mapsto> ''alice'', ''sdp'' \<mapsto> ''v=0'']
     = (example_state stored_room [''sA'', ''sB''] {''sA'', ''sB''}, [])"
  using relay_events [where data = "[''roomId'' \<mapsto> ''r1'', ''from'' \<mapsto> ''alice'', ''candidate'' \<mapsto> ''c0'']"
      and r = "''r1''" and sid = "''sA''" and st = "example_state stored_room [''sA'', ''sB''] {''sA'', ''sB''}"]
    relay_events [where data = "[''roomId'' \<mapsto> [], ''from'' \<mapsto> ''alice'', ''sdp'' \<mapsto> ''v=0'']"
      and r = "''r1''" and sid = "''sA''" and st = "example_state stored_room [''sA'', ''sB''] {''sA'', ''sB''}"]
    relay_events [where data = "[''from'' \<mapsto> ''alice'', ''sdp'' \<mapsto> ''v=0'']"
      and r = "''r1''" and sid = "''sA''" and st = "example_state stored_room [''sA'', ''sB''] {''sA'', ''sB''}"]
  by (auto simp: example_state_def)

section \<open>Ending a call\<close>

text \<open>
  C8. An \<open>end\<close> event with a non-empty \<open>roomId\<close> sets the status of that room to
  \<open>ended\<close> when the room is stored, whatever the status was, and changes nothing when it
  is not; no other room, the directory and the groups are untouched, and a second \<open>end\<close>
  changes nothing more. \<open>call_ended\<close> with the given reason goes to the whole room with
  nobody excluded: it is delivered to every member of the group, the sender included.
\<close>

theorem end_call_effect:
  assumes "data ''roomId'' = Some r" "r \<noteq> []"
  shows "(let st' = fst (end_call st sid data) in
            active_rooms st' r =
              map_option (\<lambda>room_info. room_info\<lparr>status := ''ended''\<rparr>) (active_rooms st r)
          \<and> (\<forall>r'. r' \<noteq> r \<longrightarrow> active_rooms st' r' = active_rooms st r')
          \<and> (active_rooms st r = None \<longrightarrow> st' = st)
          \<and> room_connections st' = room_connections st
          \<and> sio_rooms st' = sio_rooms st
          \<and> snd (end_call st sid data) = [Emit ''call_ended'' [(''reason'', data ''reason'')] r None]
          \<and> recipients (sio_rooms st') (Emit ''call_ended'' [(''reason'', data ''reason'')] r None)
              = sio_rooms st r
          \<and> fst (end_call st' sid data) = st')"
  using assms
  by (auto simp: end_call_def py_not_def recipients_def Let_def split: option.splits)

theorem end_call_effect_witness:
  "(let st = example_state (example_room ''expired'' (Naive 0) (Naive 10)) [''sA'', ''sB''] {''sA'', ''sB''};
        d = [''roomId'' \<mapsto> ''r1'', ''reason'' \<mapsto> ''timeout''];
        st' = fst (end_call st ''sA'' d) in
      active_rooms st' ''r1'' = Some (example_room ''ended'' (Naive 0) (Naive 10))
    \<and> snd (end_call st ''sA'' d) = [Emit ''call_ended'' [(''reason'', Some ''timeout'')] ''r1'' None]
    \<and> recipients (sio_rooms st') (Emit ''call_ended'' [(''reason'', Some ''timeout'')] ''r1'' None)
         = {''sA'', ''sB''}
    \<and> fst (end_call st' ''sA'' d) = st')"
  using end_call_effect [where data = "[''roomId'' \<mapsto> ''r1'', ''reason'' \<mapsto> ''timeout'']"
      and r = "''r1''" and sid = "''sA''"
      and st = "example_state (example_room ''expired'' (Naive 0) (Naive 10)) [''sA'', ''sB''] {''sA'', ''sB''}"]
  by (simp add: Let_def example_state_def example_room_def recipients_def)

section \<open>Leaving a room\<close>

lemma map_fst_map_entry: "map fst (AList.map_entry k f xs) = map fst xs"
  by (induction xs) auto

lemma once_listed_remove1: "count_list xs x \<le> 1 \<Longrightarrow> x \<notin> set (remove1 x xs)"
  by (induction xs) (auto simp: count_list_0_iff)

lemma leave_directory:
  assumes "data ''roomId'' = Some r" "r \<noteq> []"
  shows "map_of (room_connections (fst (leave st sid data))) r' =
           (if r' = r then map_option (remove1 sid) (map_of (room_connections st) r)
            else map_of (room_connections st) r')"
    and "map fst (room_connections (fst (leave st sid data))) = map fst (room_connections st)"
  using assms
  by (auto simp: leave_def py_not_def leave_room_def Let_def map_of_map_entry remove1_idem
      map_fst_map_entry split: option.splits simp del: AList.map_entry.simps)

lemma leave_connections:
  assumes "data ''roomId'' = Some r" "r \<noteq> []"
  shows "connections_of (fst (leave st sid data)) r' =
           (if r' = r then remove1 sid (connections_of st r) else connections_of st r')"
proof -
  have "map_of (room_connections (fst (leave st sid data))) r' =
           (if r' = r then map_option (remove1 sid) (map_of (room_connections st) r)
            else map_of (room_connections st) r')"
    using assms by (rule leave_directory(1))
  then show ?thesis
    by (simp add: connections_of_def split: option.splits)
qed

lemma leave_rest:
  assumes "data ''roomId'' = Some r" "r \<noteq> []"
  shows "active_rooms (fst (leave st sid data)) = active_rooms st"
    and "sio_rooms (fst (leave st sid data)) = (sio_rooms st)(r := sio_rooms st r - {sid})"
    and "snd (leave st sid data) = [Emit ''user_left'' [(''userId'', data ''userId'')] r None]"
  using assms
  by (simp_all add: leave_def py_not_def leave_room_def Let_def)

text \<open>
  C7. The claim is that a \<open>leave\<close> removes the session from the room's connection set.
  \<^verbatim>\<open>list.remove\<close> deletes one occurrence: a session that was added twice is still listed
  after it has left.
\<close>

theorem leave_counterexample:
  "''sA'' \<in> set (connections_of
       (fst (leave (example_state (example_room ''active'' (Naive 0) (Naive 10)) [''sA'', ''sA''] {''sA''})
               ''sA'' [''roomId'' \<mapsto> ''r1'', ''userId'' \<mapsto> ''u1''])) ''r1'')"
  by (simp add: leave_def py_not_def leave_room_def Let_def example_state_def connections_of_def)

text \<open>
  C7, amended. A \<open>leave\<close> event with a non-empty \<open>roomId\<close> takes the session out of the
  room's broadcast group and deletes one occurrence of it from the room's list in the
  directory, so a session listed once is no longer listed; a room or session that is not
  there changes nothing, no room is added to or dropped from the directory, and the
  registry is untouched. \<open>user_left\<close> goes to the room with nobody excluded, that is to
  everyone still in the group. An \<open>offer\<close> that a room-mate sends afterwards is not
  delivered to the session that left.
\<close>

theorem leave_effect:
  assumes "data ''roomId'' = Some r" "r \<noteq> []"
  shows "(let st' = fst (leave st sid data) in
            active_rooms st' = active_rooms st
          \<and> sio_rooms st' = (sio_rooms st)(r := sio_rooms st r - {sid})
          \<and> map fst (room_connections st') = map fst (room_connections st)
          \<and> (\<forall>r'. connections_of st' r' =
                 (if r' = r then remove1 sid (connections_of st r) else connections_of st r'))
          \<and> (count_list (connections_of st r) sid \<le> 1 \<longrightarrow> sid \<notin> set (connections_of st' r))
          \<and> snd (leave st sid data) = [Emit ''user_left'' [(''userId'', data ''userId'')] r None]
          \<and> recipients (sio_rooms st') (Emit ''user_left'' [(''userId'', data ''userId'')] r None)
              = sio_rooms st r - {sid}
          \<and> (\<forall>mate d. d ''roomId'' = Some r \<longrightarrow>
                snd (offer st' mate d) =
                  [Emit ''offer'' [(''from'', d ''from''), (''sdp'', d ''sdp'')] r (Some mate)]
              \<and> sid \<notin> recipients (sio_rooms st')
                   (Emit ''offer'' [(''from'', d ''from''), (''sdp'', d ''sdp'')] r (Some mate))))"
proof -
  have conns: "connections_of (fst (leave st sid data)) r' =
           (if r' = r then remove1 sid (connections_of st r) else connections_of st r')" for r'
    using assms by (rule leave_connections)
  have keys: "map fst (room_connections (fst (leave st sid data))) = map fst (room_connections st)"
    using assms by (rule leave_directory(2))
  have rest: "active_rooms (fst (leave st sid data)) = active_rooms st"
    "sio_rooms (fst (leave st sid data)) = (sio_rooms st)(r := sio_rooms st r - {sid})"
    "snd (leave st sid data) = [Emit ''user_left'' [(''userId'', data ''userId'')] r None]"
    using assms by (rule leave_rest)+
  have later: "snd (offer st' mate d) =
      [Emit ''offer'' [(''from'', d ''from''), (''sdp'', d ''sdp'')] r (Some mate)]"
    if "d ''roomId'' = Some r" for st' mate d
    using that assms(2) by (simp add: offer_def py_not_def)
  show ?thesis
    unfolding Let_def
    using conns keys rest later
    by (simp add: recipients_def once_listed_remove1)
qed

theorem leave_effect_witness:
  "(let st = example_state (example_room ''active'' (Naive 0) (Naive 10)) [''sA'', ''sB''] {''sA'', ''sB''};
        st' = fst (leave st ''sA'' [''roomId'' \<mapsto> ''r1'', ''userId'' \<mapsto> ''u1'']) in
      connections_of st' ''r1'' = [''sB'']
    \<and> sio_rooms st' ''r1'' = {''sB''}
    \<and> snd (leave st ''sA'' [''roomId'' \<mapsto> ''r1'', ''userId'' \<mapsto> ''u1''])
        = [Emit ''user_left'' [(''userId'', Some ''u1'')] ''r1'' None]
    \<and> recipients (sio_rooms st') (Emit ''user_left'' [(''userId'', Some ''u1'')] ''r1'' None) = {''sB''}
    \<and> snd (offer st' ''sB'' [''roomId'' \<mapsto> ''r1'', ''sdp'' \<mapsto> ''v=0'', ''from'' \<mapsto> ''bob''])
        = [Emit ''offer'' [(''from'', Some ''bob''), (''sdp'', Some ''v=0'')] ''r1'' (Some ''sB'')]
    \<and> recipients (sio_rooms st')
         (Emit ''offer'' [(''from'', Some ''bob''), (''sdp'', Some ''v=0'')] ''r1'' (Some ''sB'')) = {})"
  using leave_effect [where data = "[''roomId'' \<mapsto> ''r1'', ''userId'' \<mapsto> ''u1'']" and r = "''r1''"
      and sid = "''sA''"
      and st = "example_state (example_room ''active'' (Naive 0) (Naive 10)) [''sA'', ''sB''] {''sA'', ''sB''}"]
  by (simp add: Let_def example_state_def connections_of_def recipients_def)

section \<open>Transport disconnect\<close>

lemma disconnect_loop_eq:
  "disconnect_loop sid rc =
     (map (\<lambda>(room_id, connections). (room_id, remove1 sid connections)) rc,
      map (\<lambda>(room_id, connections). Emit ''leave'' [(''userId'', Some sid)] room_id (Some sid))
        (filter (\<lambda>(room_id, connections). sid \<in> set connections) rc))"
proof (induction rc)
  case Nil
  show ?case by simp
next
  case (Cons entry rc)
  obtain room_id connections where entry: "entry = (room_id, connections)"
    by (cases entry)
  show ?case
    unfolding entry using Cons.IH by (simp add: remove1_idem)
qed

text \<open>
  C9. The claim is that a disconnect removes the session from the connection set of every
  room it is a member of. As in \<open>leave\<close>, one occurrence is deleted per room: a session
  that was added twice to a room is still listed there after it has disconnected.
\<close>

theorem disconnect_counterexample:
  "''sA'' \<in> set (connections_of
       (fst (disconnect (example_state (example_room ''active'' (Naive 0) (Naive 10)) [''sA'', ''sA''] {''sA''})
               ''sA'')) ''r1'')"
  by (simp add: disconnect_def example_state_def connections_of_def)

text \<open>
  C9, amended. When a session disconnects, one occurrence of it is deleted from the list of
  every room of the directory (a list that does not hold it stays as it is), so when no
  list held it more than once it is listed nowhere afterwards; the rooms of the directory
  stay the same, and the registry and the groups are not touched by the handler. For each
  room whose list held the session, in the directory's order, \<open>leave\<close> with the session id
  as \<open>userId\<close> is sent to that room without the disconnected session.
\<close>

theorem disconnect_effect:
  "(let st' = fst (disconnect st sid); out = snd (disconnect st sid) in
      active_rooms st' = active_rooms st
    \<and> sio_rooms st' = sio_rooms st
    \<and> room_connections st' =
        map (\<lambda>(room_id, connections). (room_id, remove1 sid connections)) (room_connections st)
    \<and> ((\<forall>(room_id, connections) \<in> set (room_connections st). count_list connections sid \<le> 1) \<longrightarrow>
        (\<forall>(room_id, connections) \<in> set (room_connections st'). sid \<notin> set connections))
    \<and> out = map (\<lambda>(room_id, connections). Emit ''leave'' [(''userId'', Some sid)] room_id (Some sid))
              (filter (\<lambda>(room_id, connections). sid \<in> set connections) (room_connections st))
    \<and> (\<forall>e \<in> set out. recipients (sio_rooms st') e = sio_rooms st (room e) - {sid}))"
  by (auto simp: disconnect_def disconnect_loop_eq Let_def recipients_def once_listed_remove1)

theorem disconnect_effect_witness:
  "(let st' = fst (disconnect two_rooms ''sA''); out = snd (disconnect two_rooms ''sA'') in
      room_connections st' = [(''r1'', [''sB'']), (''r2'', [])]
    \<and> out = [Emit ''leave'' [(''userId'', Some ''sA'')] ''r1'' (Some ''sA''),
             Emit ''leave'' [(''userId'', Some ''sA'')] ''r2'' (Some ''sA'')]
    \<and> recipients (sio_rooms st') (Emit ''leave'' [(''userId'', Some ''sA'')] ''r1'' (Some ''sA'')) = {''sB''}
    \<and> recipients (sio_rooms st') (Emit ''leave'' [(''userId'', Some ''sA'')] ''r2'' (Some ''sA'')) = {})"
  using disconnect_effect [of two_rooms "''sA''"]
  by (simp add: Let_def two_rooms_def recipients_def)

section \<open>The status of a room over a run\<close>











end
